theory Spec2Isabelle
  imports Complex_Main "HOL-Library.Word"
begin

section \<open>The pub/sub log worker: data model\<close>

text \<open>
  The worker of \<^verbatim>\<open>consumers/gcpconsumer.go\<close> pulls messages from a subscription, collects
  them in a batch and appends them, one line each, to a log file through a buffered
  writer. The embedding follows the Go source function by function. What the source
  does to the outside world (the writer, the message source, the file system) is made
  explicit: every call that leaves the package is recorded, in order, in a list of
  \<open>call\<close>s, and the answers of the outside world are inputs of the model.
\<close>

subsection \<open>Messages and slices\<close>

text \<open>
  Of a \<^verbatim>\<open>pubsub.Message\<close> the program reads the field \<^verbatim>\<open>Data\<close> only, and calls
  \<^verbatim>\<open>Ack\<close> and \<^verbatim>\<open>Nack\<close> on it.
\<close>

record Message =
  ID :: string
  Data :: string

text \<open>
  A Go slice has a length and a capacity. \<^verbatim>\<open>make([]T, 0, c)\<close> panics when \<open>c\<close> is
  negative; the model takes memory as unbounded otherwise. Where \<^verbatim>\<open>append\<close> has to
  reallocate, Go promises a capacity that is large enough and no more, so the new capacity
  is an input of the model (\<open>growslice\<close> below).
\<close>

record 'a slice =
  items :: "'a list"
  capacity :: nat

datatype panic = NilPointerDereference | MakesliceCapOutOfRange

definition nil_slice :: "'a slice" where
  "nil_slice = \<lparr>items = [], capacity = 0\<rparr>"

definition make_slice :: "int \<Rightarrow> panic + 'a slice" where
  "make_slice c =
     (if c < 0 then Inl MakesliceCapOutOfRange
      else Inr \<lparr>items = [], capacity = nat c\<rparr>)"

definition len :: "'a slice \<Rightarrow> int" where
  "len s = int (length (items s))"

definition append_slice :: "(nat \<Rightarrow> nat \<Rightarrow> nat) \<Rightarrow> 'a slice \<Rightarrow> 'a \<Rightarrow> 'a slice" where
  "append_slice grow s x =
     \<lparr>items = items s @ [x],
      capacity = (if length (items s) < capacity s then capacity s
                  else grow (capacity s) (Suc (length (items s))))\<rparr>"

subsection \<open>The configuration and the client\<close>

text \<open>
  \<^verbatim>\<open>Batchsize\<close> is a \<^verbatim>\<open>float32\<close>. The program never computes with it: it compares it
  with zero, assigns the constant 3 and converts it to \<^verbatim>\<open>int\<close>. Every finite
  \<^verbatim>\<open>float32\<close> is a rational number, so the field is a \<open>rat\<close>, and the conversion
  discards the fraction (truncation towards zero), which is what Go does for a value in the
  range of \<^verbatim>\<open>int\<close>. \<^verbatim>\<open>Maxwaittime\<close> is a \<^verbatim>\<open>time.Duration\<close>, a signed 64-bit
  count of nanoseconds.
\<close>

definition int_of_float32 :: "rat \<Rightarrow> int" where
  "int_of_float32 x = (if 0 \<le> x then \<lfloor>x\<rfloor> else \<lceil>x\<rceil>)"

type_synonym Duration = "64 word"

definition Minute :: Duration where
  "Minute = 60000000000"

record WorkerInfo =
  Message_log_path :: string
  Worker_log_path :: string
  Batchsize :: rat
  Maxwaittime :: Duration

text \<open>
  The two unexported fields that carry state are the batch and the pointer to the buffered
  writer, which is nil until \<^verbatim>\<open>Consume\<close> sets it. The state of the writer is of an
  arbitrary type \<open>'w\<close>. The mutex is not a field of the model: the handler holds it from
  its first to its last statement, so that handler invocations happen one after the other.
  The two loggers are left out: \<^verbatim>\<open>Println\<close> returns nothing and touches no field.
\<close>

record 'w GCPInfo =
  Project :: string
  Topic :: string
  Subscription :: string
  Keyfile :: string
  Worker :: WorkerInfo
  batch :: "Message slice"
  writer :: "'w option"

subsection \<open>The outside world\<close>

text \<open>
  The libraries the program calls are inputs of the model:
  \<^item> \<open>bufio_NewWriter\<close>, \<open>bufio_WriteString\<close> and \<open>bufio_Flush\<close> are the buffered writer;
    \<open>bufio_WriteString\<close> returns the new state of the writer and whether the returned
    error is non-nil;
  \<^item> \<open>json_Unmarshal\<close> reads the exported fields of the client from the bytes of the
    configuration file, or fails;
  \<^item> \<open>growslice\<close> is the capacity that \<^verbatim>\<open>append\<close> chooses when it reallocates.
\<close>

record JSONConfig =
  json_project :: string
  json_topic :: string
  json_subscription :: string
  json_keyfile :: string
  json_workerinfo :: WorkerInfo

record 'w extern =
  bufio_NewWriter :: "string \<Rightarrow> 'w"
  bufio_WriteString :: "'w \<Rightarrow> string \<Rightarrow> 'w \<times> bool"
  bufio_Flush :: "'w \<Rightarrow> 'w"
  json_Unmarshal :: "string \<Rightarrow> JSONConfig option"
  growslice :: "nat \<Rightarrow> nat \<Rightarrow> nat"

text \<open>
  The calls the program makes on the outside world, in the order it makes them.
  \<open>CallWriteString s failed\<close> is a call of \<^verbatim>\<open>WriteString(s)\<close> on the writer, with
  whether it returned an error.
\<close>

datatype call =
    CallWriteString string bool
  | CallAck Message
  | CallNack Message
  | CallFlush
  | CallReceive Duration
  | CallClose string

definition newline :: char where
  "newline = CHR 0x0A"

section \<open>Flush\<close>

text \<open>
  The loop of \<^verbatim>\<open>Flush\<close> over the batch: write the payload and a newline, then
  \<^verbatim>\<open>Nack\<close> when the write returned an error and \<^verbatim>\<open>Ack\<close> otherwise.
\<close>

fun Flush_loop :: "'w extern \<Rightarrow> 'w \<Rightarrow> Message list \<Rightarrow> 'w \<times> call list" where
  "Flush_loop X w [] = (w, [])"
| "Flush_loop X w (msg # rest) =
     (case bufio_WriteString X w (Data msg @ [newline]) of
        (w', failed) \<Rightarrow>
          (case Flush_loop X w' rest of
             (w'', cs) \<Rightarrow>
               (w'', CallWriteString (Data msg @ [newline]) failed
                       # (if failed then CallNack msg else CallAck msg) # cs)))"

text \<open>
  \<^verbatim>\<open>Flush\<close> itself. A nil writer makes the first use of it panic, before any call is
  made; a negative capacity makes the final \<^verbatim>\<open>make\<close> panic, after all of them.
\<close>

definition Flush :: "'w extern \<Rightarrow> 'w GCPInfo \<Rightarrow> call list \<times> (panic + 'w GCPInfo)" where
  "Flush X gcpinfo =
     (case writer gcpinfo of
        None \<Rightarrow> ([], Inl NilPointerDereference)
      | Some w \<Rightarrow>
          (case Flush_loop X w (items (batch gcpinfo)) of
             (w', cs) \<Rightarrow>
               (cs @ [CallFlush],
                case make_slice (int_of_float32 (Batchsize (Worker gcpinfo))) of
                  Inl p \<Rightarrow> Inl p
                | Inr b \<Rightarrow> Inr (gcpinfo\<lparr>writer := Some (bufio_Flush X w'), batch := b\<rparr>))))"

subsection \<open>Reading a list of calls\<close>

fun is_signal :: "call \<Rightarrow> bool" where
  "is_signal (CallAck m) = True"
| "is_signal (CallNack m) = True"
| "is_signal c = False"

fun is_write :: "call \<Rightarrow> bool" where
  "is_write (CallWriteString s failed) = True"
| "is_write c = False"


definition signals :: "call list \<Rightarrow> call list" where
  "signals cs = filter is_signal cs"

definition writes :: "call list \<Rightarrow> call list" where
  "writes cs = filter is_write cs"

section \<open>The receive handler\<close>

text \<open>
  The function that \<^verbatim>\<open>Consume\<close> hands to \<^verbatim>\<open>Subscription.Receive\<close>: under the lock,
  append the message, and flush when the batch has grown past \<^verbatim>\<open>int(Batchsize)\<close>.
\<close>

definition handler :: "'w extern \<Rightarrow> 'w GCPInfo \<Rightarrow> Message \<Rightarrow> call list \<times> (panic + 'w GCPInfo)" where
  "handler X gcpinfo msg =
     (let g = gcpinfo\<lparr>batch := append_slice (growslice X) (batch gcpinfo) msg\<rparr>
      in if len (batch g) > int_of_float32 (Batchsize (Worker g))
         then Flush X g
         else ([], Inr g))"

text \<open>
  \<^verbatim>\<open>Receive\<close> calls the handler once for each message it delivers. The handler holds the
  mutex throughout, so the invocations take effect in some order, one after the other; the
  list is the messages in that order. A panic in the handler ends the process.
\<close>

fun Receive_loop :: "'w extern \<Rightarrow> 'w GCPInfo \<Rightarrow> Message list \<Rightarrow> call list \<times> (panic + 'w GCPInfo)" where
  "Receive_loop X g [] = ([], Inr g)"
| "Receive_loop X g (msg # rest) =
     (case handler X g msg of
        (cs, Inl p) \<Rightarrow> (cs, Inl p)
      | (cs, Inr g') \<Rightarrow>
          (case Receive_loop X g' rest of (cs', r) \<Rightarrow> (cs @ cs', r)))"

section \<open>The file system\<close>

text \<open>
  The calls of the packages \<^verbatim>\<open>os\<close> and \<^verbatim>\<open>ioutil\<close> that the program makes, over a file
  system that knows its regular files with their contents, its directories, and the paths
  on which every call is refused. A path is missing when it is neither a file nor a
  directory. \<^verbatim>\<open>OpenFile\<close> creates a missing file only when it is given \<^verbatim>\<open>O_CREATE\<close>.
\<close>

datatype os_error = ErrNotExist | ErrPermission | ErrIsDir | ErrNotDir

datatype open_flag = O_WRONLY | O_APPEND | O_CREATE

record filesystem =
  files :: "string \<Rightarrow> string option"
  dirs :: "string set"
  denied :: "string set"

definition ioutil_ReadFile :: "filesystem \<Rightarrow> string \<Rightarrow> os_error + string" where
  "ioutil_ReadFile fs name =
     (if name \<in> denied fs then Inl ErrPermission
      else if name \<in> dirs fs then Inl ErrIsDir
      else case files fs name of None \<Rightarrow> Inl ErrNotExist | Some content \<Rightarrow> Inr content)"

definition os_MkdirAll :: "filesystem \<Rightarrow> string \<Rightarrow> filesystem \<times> os_error option" where
  "os_MkdirAll fs path =
     (if path \<in> denied fs then (fs, Some ErrPermission)
      else case files fs path of
             Some content \<Rightarrow> (fs, Some ErrNotDir)
           | None \<Rightarrow> (fs\<lparr>dirs := insert path (dirs fs)\<rparr>, None))"

definition os_Stat :: "filesystem \<Rightarrow> string \<Rightarrow> os_error option" where
  "os_Stat fs name =
     (if name \<in> denied fs then Some ErrPermission
      else if name \<in> dirs fs then None
      else case files fs name of None \<Rightarrow> Some ErrNotExist | Some content \<Rightarrow> None)"

definition os_Create :: "filesystem \<Rightarrow> string \<Rightarrow> filesystem \<times> os_error option" where
  "os_Create fs name =
     (if name \<in> denied fs then (fs, Some ErrPermission)
      else if name \<in> dirs fs then (fs, Some ErrIsDir)
      else (fs\<lparr>files := (files fs)(name \<mapsto> [])\<rparr>, None))"

definition os_OpenFile :: "filesystem \<Rightarrow> string \<Rightarrow> open_flag list \<Rightarrow> filesystem \<times> (os_error + string)" where
  "os_OpenFile fs name flags =
     (if name \<in> denied fs then (fs, Inl ErrPermission)
      else if name \<in> dirs fs then (fs, Inl ErrIsDir)
      else case files fs name of
             Some content \<Rightarrow> (fs, Inr name)
           | None \<Rightarrow>
               if O_CREATE \<in> set flags
               then (fs\<lparr>files := (files fs)(name \<mapsto> [])\<rparr>, Inr name)
               else (fs, Inl ErrNotExist))"

fun os_IsNotExist :: "os_error option \<Rightarrow> bool" where
  "os_IsNotExist (Some ErrNotExist) = True"
| "os_IsNotExist e = False"

section \<open>Creating the client\<close>

definition message_log_file :: "string \<Rightarrow> string \<Rightarrow> string" where
  "message_log_file logpath filename = logpath @ ''/'' @ filename @ ''.log''"

text \<open>
  \<^verbatim>\<open>CreateMessageLogFiles\<close>: make the directory, then create the file when \<^verbatim>\<open>Stat\<close>
  says that it does not exist. Any other answer of \<^verbatim>\<open>Stat\<close> leaves the file system as
  it is and returns nil. The deferred \<^verbatim>\<open>Close\<close> of the new file changes nothing that the
  model keeps (on a nil file it returns an error, which is dropped).
\<close>

definition CreateMessageLogFiles :: "filesystem \<Rightarrow> string \<Rightarrow> string \<Rightarrow> filesystem \<times> string option" where
  "CreateMessageLogFiles fs logpath filename =
     (case os_MkdirAll fs logpath of
        (fs1, Some e) \<Rightarrow> (fs1, Some ''Error: Unable to create target log files path'')
      | (fs1, None) \<Rightarrow>
          if os_IsNotExist (os_Stat fs1 (message_log_file logpath filename))
          then (case os_Create fs1 (message_log_file logpath filename) of
                  (fs2, Some e) \<Rightarrow> (fs2, Some ''Error: Unable to create target log file'')
                | (fs2, None) \<Rightarrow> (fs2, None))
          else (fs1, None))"

definition err_read_config :: string where
  "err_read_config = ''ERROR: Unable to read the json file''"

definition err_unmarshal_config :: string where
  "err_unmarshal_config =
     ''ERROR: Unable to unmarshal config file contents. Check if valid json or if some parameter missing''"

definition err_create_log_files :: string where
  "err_create_log_files = ''ERROR: Unable to create message log files. Check permissions''"

definition err_pubsub_client :: string where
  "err_pubsub_client =
     ''ERROR: Unable to create a pub/sub client. Is the credentials file exported?''"

definition err_open_log_file :: string where
  "err_open_log_file = ''Unable to Open events output log file''"

definition err_receive :: string where
  "err_receive =
     ''ERROR:error to receive messages, is the pub/sub up and does the user logmonitor has view permissions?''"

text \<open>
  The client as \<^verbatim>\<open>json.Unmarshal\<close> leaves it: the exported fields from the file, the
  batch a nil slice, the writer nil.
\<close>

definition unmarshalled :: "JSONConfig \<Rightarrow> 'w GCPInfo" where
  "unmarshalled cfg =
     \<lparr>Project = json_project cfg, Topic = json_topic cfg,
      Subscription = json_subscription cfg, Keyfile = json_keyfile cfg,
      Worker = json_workerinfo cfg, batch = nil_slice, writer = None\<rparr>"

definition default_Worker_log_path :: "'w GCPInfo \<Rightarrow> 'w GCPInfo" where
  "default_Worker_log_path g =
     (if Worker_log_path (Worker g) = []
      then g\<lparr>Worker := (Worker g)\<lparr>Worker_log_path := ''/tmp/''\<rparr>\<rparr>
      else g)"

definition default_Batchsize :: "'w GCPInfo \<Rightarrow> 'w GCPInfo" where
  "default_Batchsize g =
     (if Batchsize (Worker g) = 0
      then g\<lparr>Worker := (Worker g)\<lparr>Batchsize := 3\<rparr>\<rparr>
      else g)"

definition default_Maxwaittime :: "'w GCPInfo \<Rightarrow> 'w GCPInfo" where
  "default_Maxwaittime g =
     (if Maxwaittime (Worker g) = 0
      then g\<lparr>Worker := (Worker g)\<lparr>Maxwaittime := 10\<rparr>\<rparr>
      else g)"

text \<open>
  \<^verbatim>\<open>NewGCPclient\<close> returns a pointer and an error, as the Go function does. The
  statements are in the order of the source: the batch is made from \<^verbatim>\<open>Batchsize\<close> as the
  file gave it, and the defaults are set after that.
\<close>

definition NewGCPclient ::
  "'w extern \<Rightarrow> filesystem \<Rightarrow> string \<Rightarrow> panic + (('w GCPInfo option \<times> string option) \<times> filesystem)" where
  "NewGCPclient X fs configfile =
     (case ioutil_ReadFile fs configfile of
        Inl e \<Rightarrow> Inr ((None, Some err_read_config), fs)
      | Inr content \<Rightarrow>
          (case json_Unmarshal X content of
             None \<Rightarrow> Inr ((None, Some err_unmarshal_config), fs)
           | Some cfg \<Rightarrow>
               (let g = default_Worker_log_path (unmarshalled cfg)
                in case CreateMessageLogFiles fs (Message_log_path (Worker g)) (Subscription g) of
                     (fs', Some e) \<Rightarrow> Inr ((None, Some err_create_log_files), fs')
                   | (fs', None) \<Rightarrow>
                       (case make_slice (int_of_float32 (Batchsize (Worker g))) of
                          Inl p \<Rightarrow> Inl p
                        | Inr b \<Rightarrow>
                            Inr ((Some (default_Maxwaittime (default_Batchsize (g\<lparr>batch := b\<rparr>))),
                                  None), fs')))))"

section \<open>Consume\<close>

text \<open>
  What the message source does in one session: whether the client can be created for a
  project and a key file, the messages it delivers to the handler, and whether
  \<^verbatim>\<open>Receive\<close> returns an error in the end.
\<close>

record pubsub_env =
  NewClient_fails :: "string \<Rightarrow> string \<Rightarrow> bool"
  delivered :: "Message list"
  Receive_fails :: bool

definition Consume ::
  "'w extern \<Rightarrow> pubsub_env \<Rightarrow> filesystem \<Rightarrow> 'w GCPInfo \<Rightarrow> call list \<times> (panic + 'w GCPInfo \<times> string option)" where
  "Consume X P fs gcpinfo =
     (if NewClient_fails P (Project gcpinfo) (Keyfile gcpinfo)
      then ([], Inr (gcpinfo, Some err_pubsub_client))
      else case os_OpenFile fs
                  (message_log_file (Message_log_path (Worker gcpinfo)) (Subscription gcpinfo))
                  [O_WRONLY, O_APPEND] of
             (fs', Inl e) \<Rightarrow> ([], Inr (gcpinfo, Some err_open_log_file))
           | (fs', Inr file) \<Rightarrow>
               (let g = gcpinfo\<lparr>writer := Some (bufio_NewWriter X file)\<rparr>;
                    timeout = Maxwaittime (Worker g) * Minute
                in case Receive_loop X g (delivered P) of
                     (cs, Inl p) \<Rightarrow> (CallReceive timeout # cs, Inl p)
                   | (cs, Inr g') \<Rightarrow>
                       (CallReceive timeout # cs @ [CallClose file],
                        Inr (g', if Receive_fails P then Some err_receive else None))))"

section \<open>The deadline of a session\<close>

text \<open>
  \<^verbatim>\<open>Consume\<close> gives \<^verbatim>\<open>Receive\<close> the context
  \<^verbatim>\<open>context.WithTimeout(context.Background(), Maxwaittime*time.Minute)\<close>: its deadline is
  the time of the call plus the product, which is computed in 64-bit nanoseconds. Times are
  nanoseconds on the wall clock.
\<close>

definition session_deadline :: "int \<Rightarrow> 'w GCPInfo \<Rightarrow> int" where
  "session_deadline now g = now + sint (Maxwaittime (Worker g) * Minute)"

text \<open>
  Modelled from the spec: the receive loop of the message source, which is a library and
  not in the repository. Section 4.3 of the specification: ``the session carries a
  wall-clock deadline (now + maxWaitTime, units: minutes). When the deadline elapses, the
  source's receive loop is asked to stop; no further handler invocations occur after stop
  completes.'' Of the messages that arrive, each at its time, the loop hands to the handler
  those that arrive before the deadline, in the order of arrival.
\<close>

definition Receive_until :: "int \<Rightarrow> (int \<times> Message) list \<Rightarrow> Message list" where
  "Receive_until deadline arrivals = map snd (filter (\<lambda>(t, m). t < deadline) arrivals)"

text \<open>
  A message source that works, for a session of the client \<open>g\<close> that starts at \<open>now\<close>.
\<close>

definition timed_source :: "int \<Rightarrow> 'w GCPInfo \<Rightarrow> (int \<times> Message) list \<Rightarrow> pubsub_env" where
  "timed_source now g arrivals =
     \<lparr>NewClient_fails = (\<lambda>project keyfile. False),
      delivered = Receive_until (session_deadline now g) arrivals,
      Receive_fails = False\<rparr>"

section \<open>Inputs to run the model on\<close>

subsection \<open>A writer and a parser\<close>

text \<open>
  A writer over a device with room for \<open>room\<close> more bytes: a record that fits is taken,
  one that does not is refused and leaves the writer as it was.
\<close>

record quota_writer =
  taken :: string
  stored :: string
  room :: nat

text \<open>
  A parser that knows three configuration files: one that sets no batch size and no
  maximum wait time, one that sets them to 2 and 5, and one whose log directory cannot be
  made. Everything else is not valid JSON.
\<close>

definition config_default :: JSONConfig where
  "config_default =
     \<lparr>json_project = ''project'', json_topic = ''topic'',
      json_subscription = ''events'', json_keyfile = ''key.json'',
      json_workerinfo = \<lparr>Message_log_path = ''/var/log'', Worker_log_path = [],
                          Batchsize = 0, Maxwaittime = 0\<rparr>\<rparr>"

definition config_two :: JSONConfig where
  "config_two =
     \<lparr>json_project = ''project'', json_topic = ''topic'',
      json_subscription = ''events'', json_keyfile = ''key.json'',
      json_workerinfo = \<lparr>Message_log_path = ''/var/log'', Worker_log_path = ''/tmp/'',
                          Batchsize = 2, Maxwaittime = 5\<rparr>\<rparr>"

definition config_readonly :: JSONConfig where
  "config_readonly =
     \<lparr>json_project = ''project'', json_topic = ''topic'',
      json_subscription = ''events'', json_keyfile = ''key.json'',
      json_workerinfo = \<lparr>Message_log_path = ''/readonly'', Worker_log_path = ''/tmp/'',
                          Batchsize = 2, Maxwaittime = 5\<rparr>\<rparr>"

definition example_unmarshal :: "string \<Rightarrow> JSONConfig option" where
  "example_unmarshal content =
     (if content = ''config without batchsize'' then Some config_default
      else if content = ''config with batchsize 2'' then Some config_two
      else if content = ''config with a read-only log path'' then Some config_readonly
      else None)"

definition quota_extern :: "quota_writer extern" where
  "quota_extern =
     \<lparr>bufio_NewWriter = (\<lambda>file. \<lparr>taken = [], stored = [], room = 8\<rparr>),
      bufio_WriteString = (\<lambda>w s.
         if length s \<le> room w
         then (w\<lparr>taken := taken w @ s, room := room w - length s\<rparr>, False)
         else (w, True)),
      bufio_Flush = (\<lambda>w. w\<lparr>taken := [], stored := stored w @ taken w\<rparr>),
      json_Unmarshal = example_unmarshal,
      growslice = (\<lambda>old needed. max needed (2 * old))\<rparr>"

text \<open>
  The answers of the writer to a list of records, written one after the other: for each
  record, whether \<^verbatim>\<open>WriteString\<close> returned an error.
\<close>

fun write_outcomes :: "'w extern \<Rightarrow> 'w \<Rightarrow> string list \<Rightarrow> bool list" where
  "write_outcomes X w [] = []"
| "write_outcomes X w (s # ss) =
     (case bufio_WriteString X w s of (w', failed) \<Rightarrow> failed # write_outcomes X w' ss)"

definition record_of :: "Message \<Rightarrow> string" where
  "record_of m = Data m @ [newline]"

fun signal_of :: "Message \<Rightarrow> bool \<Rightarrow> call" where
  "signal_of m failed = (if failed then CallNack m else CallAck m)"


definition threshold :: "'w GCPInfo \<Rightarrow> int" where
  "threshold g = int_of_float32 (Batchsize (Worker g))"

subsection \<open>Messages, clients, file systems and message sources\<close>

definition msg_a :: Message where
  "msg_a = \<lparr>ID = ''1'', Data = ''a''\<rparr>"

definition msg_b :: Message where
  "msg_b = \<lparr>ID = ''2'', Data = ''a payload that does not fit''\<rparr>"

definition msg_c :: Message where
  "msg_c = \<lparr>ID = ''3'', Data = ''c''\<rparr>"

definition example_worker :: WorkerInfo where
  "example_worker =
     \<lparr>Message_log_path = ''/var/log'', Worker_log_path = ''/tmp/'',
      Batchsize = 2, Maxwaittime = 10\<rparr>"

definition example_client :: "quota_writer GCPInfo" where
  "example_client =
     \<lparr>Project = ''project'', Topic = ''topic'', Subscription = ''events'',
      Keyfile = ''key.json'', Worker = example_worker,
      batch = \<lparr>items = [], capacity = 2\<rparr>,
      writer = Some \<lparr>taken = [], stored = [], room = 8\<rparr>\<rparr>"

definition full_client :: "quota_writer GCPInfo" where
  "full_client = example_client\<lparr>batch := \<lparr>items = [msg_a, msg_b, msg_c], capacity = 4\<rparr>\<rparr>"

definition example_fs :: filesystem where
  "example_fs =
     \<lparr>files = [''default.json'' \<mapsto> ''config without batchsize'',
               ''two.json'' \<mapsto> ''config with batchsize 2'',
               ''readonly.json'' \<mapsto> ''config with a read-only log path'',
               ''broken.json'' \<mapsto> ''not json''],
      dirs = {},
      denied = {''/readonly''}\<rparr>"

definition default_client :: "quota_writer GCPInfo" where
  "default_client =
     \<lparr>Project = ''project'', Topic = ''topic'', Subscription = ''events'',
      Keyfile = ''key.json'',
      Worker = \<lparr>Message_log_path = ''/var/log'', Worker_log_path = ''/tmp/'',
                Batchsize = 3, Maxwaittime = 10\<rparr>,
      batch = \<lparr>items = [], capacity = 0\<rparr>,
      writer = None\<rparr>"

definition created_fs :: filesystem where
  "created_fs =
     example_fs\<lparr>files := (files example_fs)(''/var/log/events.log'' \<mapsto> []),
                dirs := {''/var/log''}\<rparr>"

definition quiet_source :: pubsub_env where
  "quiet_source = \<lparr>NewClient_fails = (\<lambda>project keyfile. False), delivered = [],
                    Receive_fails = False\<rparr>"

definition no_credentials :: pubsub_env where
  "no_credentials = \<lparr>NewClient_fails = (\<lambda>project keyfile. True), delivered = [],
                      Receive_fails = False\<rparr>"

definition failing_source :: pubsub_env where
  "failing_source = \<lparr>NewClient_fails = (\<lambda>project keyfile. False),
                      delivered = [msg_a], Receive_fails = True\<rparr>"

definition long_wait_client :: "quota_writer GCPInfo" where
  "long_wait_client = example_client\<lparr>Worker := example_worker\<lparr>Maxwaittime := 153722868\<rparr>\<rparr>"

section \<open>Properties of Flush\<close>


lemma Flush_loop_signals:
  "Flush_loop X w msgs = (w', cs) \<Longrightarrow>
   signals cs = map2 signal_of msgs (write_outcomes X w (map record_of msgs))"
  by (induction msgs arbitrary: w w' cs) (auto simp: signals_def record_of_def split: prod.splits)

lemma write_outcomes_length: "length (write_outcomes X w ss) = length ss"
  by (induction ss arbitrary: w) (auto split: prod.splits)

lemma Flush_loop_count_flush:
  "Flush_loop X w msgs = (w', cs) \<Longrightarrow> count_list cs CallFlush = 0"
  by (induction msgs arbitrary: w w' cs) (auto split: prod.splits)

lemma Flush_calls:
  "writer g = Some w \<Longrightarrow> fst (Flush X g) = snd (Flush_loop X w (items (batch g))) @ [CallFlush]"
  by (simp add: Flush_def split: prod.splits)

lemma Flush_returns:
  "Flush X g = (cs, Inr g') \<Longrightarrow>
   \<exists>w. writer g = Some w \<and> 0 \<le> threshold g \<and>
       cs = snd (Flush_loop X w (items (batch g))) @ [CallFlush] \<and>
       g' = g\<lparr>writer := Some (bufio_Flush X (fst (Flush_loop X w (items (batch g))))),
              batch := \<lparr>items = [], capacity = nat (threshold g)\<rparr>\<rparr>"
  by (auto simp: Flush_def make_slice_def threshold_def split: option.splits prod.splits sum.splits if_splits)

lemma signals_append: "signals (xs @ ys) = signals xs @ signals ys"
  by (simp add: signals_def)

lemma writes_append: "writes (xs @ ys) = writes xs @ writes ys"
  by (simp add: writes_def)

text \<open>
  Claim C1. \<^verbatim>\<open>Flush\<close> with a writer sends one signal for each message of the batch, in
  the order of the batch: \<^verbatim>\<open>Nack\<close> when the write of its record returned an error,
  \<^verbatim>\<open>Ack\<close> when it did not. A failed write does not stop the loop: the signals are as
  many as the messages.
\<close>

theorem Flush_ack_iff_write_succeeded:
  assumes "writer g = Some w"
  shows "signals (fst (Flush X g)) =
           map2 signal_of (items (batch g)) (write_outcomes X w (map record_of (items (batch g))))
         \<and> length (signals (fst (Flush X g))) = length (items (batch g))"
proof -
  obtain w' cs where L: "Flush_loop X w (items (batch g)) = (w', cs)"
    by (cases "Flush_loop X w (items (batch g))")
  have "fst (Flush X g) = cs @ [CallFlush]"
    using assms L by (simp add: Flush_calls)
  then have S: "signals (fst (Flush X g)) = signals cs"
    by (simp add: signals_append) (simp add: signals_def)
  show ?thesis
    using S Flush_loop_signals [OF L] by (simp add: write_outcomes_length)
qed

theorem Flush_ack_iff_write_succeeded_witness:
  "writer full_client = Some \<lparr>taken = [], stored = [], room = 8\<rparr>
   \<and> signals (fst (Flush quota_extern full_client)) = [CallAck msg_a, CallNack msg_b, CallAck msg_c]
   \<and> length (signals (fst (Flush quota_extern full_client))) = 3"
  using Flush_ack_iff_write_succeeded [of full_client "\<lparr>taken = [], stored = [], room = 8\<rparr>" quota_extern]
  by (simp add: full_client_def example_client_def quota_extern_def record_of_def
        msg_a_def msg_b_def msg_c_def)

lemma Flush_returns_iff:
  "(\<exists>cs g'. Flush X g = (cs, Inr g')) = (writer g \<noteq> None \<and> 0 \<le> threshold g)"
  by (auto simp: Flush_def make_slice_def threshold_def split: option.splits prod.splits)

lemma threshold_update [simp]:
  "threshold (g\<lparr>writer := w, batch := b\<rparr>) = threshold g"
  "threshold (g\<lparr>batch := b\<rparr>) = threshold g"
  "threshold (g\<lparr>writer := w\<rparr>) = threshold g"
  by (simp_all add: threshold_def)

lemma Flush_result:
  assumes "Flush X g = (cs, Inr g')"
  shows "items (batch g') = [] \<and> int (capacity (batch g')) = threshold g'
         \<and> threshold g' = threshold g
         \<and> count_list cs CallFlush = 1 \<and> last cs = CallFlush"
proof -
  obtain w where W: "writer g = Some w" and T: "0 \<le> threshold g"
    and C: "cs = snd (Flush_loop X w (items (batch g))) @ [CallFlush]"
    and G: "g' = g\<lparr>writer := Some (bufio_Flush X (fst (Flush_loop X w (items (batch g))))),
              batch := \<lparr>items = [], capacity = nat (threshold g)\<rparr>\<rparr>"
    using Flush_returns [OF assms] by blast
  have "count_list (snd (Flush_loop X w (items (batch g)))) CallFlush = 0"
    using Flush_loop_count_flush [of X w "items (batch g)"]
    by (cases "Flush_loop X w (items (batch g))") simp
  then have "count_list cs CallFlush = 1"
    using C by simp
  then show ?thesis
    using T C G by simp
qed

text \<open>
  Claim C3. When \<^verbatim>\<open>Flush\<close> returns, the batch is empty and its capacity is the
  threshold \<^verbatim>\<open>int(Batchsize)\<close>, and the buffer of the writer has been flushed exactly
  once, as the last call, whatever the writes returned.
\<close>

theorem Flush_resets_batch:
  assumes "Flush X g = (cs, Inr g')"
  shows "items (batch g') = [] \<and> int (capacity (batch g')) = threshold g'
         \<and> threshold g' = threshold g
         \<and> count_list cs CallFlush = 1 \<and> last cs = CallFlush"
  using Flush_result [OF assms] .

theorem Flush_resets_batch_witness:
  "Flush quota_extern full_client =
     ([CallWriteString ''a\<newline>'' False, CallAck msg_a,
       CallWriteString ''a payload that does not fit\<newline>'' True, CallNack msg_b,
       CallWriteString ''c\<newline>'' False, CallAck msg_c, CallFlush],
      Inr (example_client\<lparr>writer := Some \<lparr>taken = [], stored = ''a\<newline>c\<newline>'', room = 4\<rparr>\<rparr>))
   \<and> items (batch (example_client\<lparr>writer := Some \<lparr>taken = [], stored = ''a\<newline>c\<newline>'', room = 4\<rparr>\<rparr>)) = []
   \<and> capacity (batch (example_client\<lparr>writer := Some \<lparr>taken = [], stored = ''a\<newline>c\<newline>'', room = 4\<rparr>\<rparr>)) = 2"
proof -
  have F: "Flush quota_extern full_client =
     ([CallWriteString ''a\<newline>'' False, CallAck msg_a,
       CallWriteString ''a payload that does not fit\<newline>'' True, CallNack msg_b,
       CallWriteString ''c\<newline>'' False, CallAck msg_c, CallFlush],
      Inr (example_client\<lparr>writer := Some \<lparr>taken = [], stored = ''a\<newline>c\<newline>'', room = 4\<rparr>\<rparr>))"
    by (simp add: Flush_def full_client_def example_client_def example_worker_def quota_extern_def
          msg_a_def msg_b_def msg_c_def newline_def make_slice_def int_of_float32_def)
  show ?thesis
    using F Flush_resets_batch [OF F]
    by (simp add: threshold_def example_client_def example_worker_def int_of_float32_def)
qed



text \<open>
  Claim C7. \<^verbatim>\<open>Flush\<close> on an empty batch, when it returns, has made one call only, the
  flush of the buffer: no write, no \<^verbatim>\<open>Ack\<close>, no \<^verbatim>\<open>Nack\<close>. The batch is empty
  afterwards, and a second \<^verbatim>\<open>Flush\<close> does the same and leaves the batch as it is.
\<close>

theorem Flush_empty_batch:
  assumes "items (batch g) = []" and "Flush X g = (cs, Inr g')"
  shows "cs = [CallFlush] \<and> items (batch g') = []
         \<and> (\<exists>g''. Flush X g' = ([CallFlush], Inr g'') \<and> batch g'' = batch g')"
proof -
  obtain w where W: "writer g = Some w" and T: "0 \<le> threshold g"
    and C: "cs = snd (Flush_loop X w (items (batch g))) @ [CallFlush]"
    and G: "g' = g\<lparr>writer := Some (bufio_Flush X (fst (Flush_loop X w (items (batch g))))),
              batch := \<lparr>items = [], capacity = nat (threshold g)\<rparr>\<rparr>"
    using Flush_returns [OF assms(2)] by blast
  have 1: "cs = [CallFlush]" using C assms(1) by simp
  have 2: "items (batch g') = []" using G by simp
  have 3: "\<exists>g''. Flush X g' = ([CallFlush], Inr g'') \<and> batch g'' = batch g'"
    using G T by (simp add: Flush_def make_slice_def threshold_def)
  show ?thesis using 1 2 3 by simp
qed

theorem Flush_empty_batch_witness:
  "items (batch example_client) = []
   \<and> Flush quota_extern example_client = ([CallFlush], Inr example_client)
   \<and> items (batch example_client) = []"
proof -
  have E: "items (batch example_client) = []"
    by (simp add: example_client_def)
  have F: "Flush quota_extern example_client = ([CallFlush], Inr example_client)"
    by (simp add: Flush_def example_client_def example_worker_def quota_extern_def
          make_slice_def int_of_float32_def)
  show ?thesis
    using E F Flush_empty_batch [OF E F] by simp
qed

section \<open>Properties of the handler\<close>

lemma len_append_slice [simp]:
  "items (append_slice grow s x) = items s @ [x]"
  by (simp add: append_slice_def)

lemma handler_threshold:
  "handler X g msg = (cs, Inr g') \<Longrightarrow> threshold g' = threshold g"
  by (auto simp: handler_def Let_def dest: Flush_result split: if_splits)

lemma handler_count:
  assumes "handler X g msg = (cs, Inr g')"
  shows "count_list cs CallFlush = (if threshold g < int (length (items (batch g))) + 1 then 1 else 0)"
  using assms
  by (auto simp: handler_def Let_def len_def threshold_def dest: Flush_result split: if_splits)

lemma handler_items:
  assumes "handler X g msg = (cs, Inr g')"
  shows "items (batch g') = (if threshold g < int (length (items (batch g))) + 1 then [] else items (batch g) @ [msg])"
  using assms
  by (auto simp: handler_def Let_def len_def threshold_def dest: Flush_result split: if_splits)

lemma handler_returns:
  assumes "writer g = Some w" and "0 \<le> threshold g"
  shows "\<exists>cs g' w'. handler X g msg = (cs, Inr g') \<and> writer g' = Some w' \<and> threshold g' = threshold g"
  using assms
  by (auto simp: handler_def Let_def Flush_def make_slice_def threshold_def split: prod.splits)

text \<open>
  Claim C2. With the writer set and a threshold that is not negative, every invocation of
  the handler returns. It has flushed exactly when the batch, after the append, is longer
  than the threshold. After a flush the batch is empty; without one the handler has made no
  call at all and the batch is the old batch with the message at its end, so that as many
  messages as the threshold sit in the batch unflushed. The writer stays set and the
  threshold stays as it is, so the same holds for the next invocation.
\<close>

theorem handler_flushes_iff_exceeds:
  assumes "writer g = Some w" and "0 \<le> threshold g"
  shows "\<exists>cs g'. handler X g msg = (cs, Inr g')
           \<and> (CallFlush \<in> set cs) = (threshold g < int (length (items (batch g))) + 1)
           \<and> items (batch g') = (if CallFlush \<in> set cs then [] else items (batch g) @ [msg])
           \<and> (CallFlush \<in> set cs \<or> cs = [])
           \<and> writer g' \<noteq> None \<and> threshold g' = threshold g"
proof -
  obtain cs g' w' where H: "handler X g msg = (cs, Inr g')" and W: "writer g' = Some w'"
    and T: "threshold g' = threshold g"
    using handler_returns [OF assms] by blast
  have N: "count_list cs CallFlush = (if threshold g < int (length (items (batch g))) + 1 then 1 else 0)"
    using handler_count [OF H] .
  have F: "(CallFlush \<in> set cs) = (threshold g < int (length (items (batch g))) + 1)"
    using N count_list_0_iff [of cs CallFlush] by (auto split: if_splits)
  have I: "items (batch g') = (if CallFlush \<in> set cs then [] else items (batch g) @ [msg])"
    using handler_items [OF H] F by simp
  have E: "CallFlush \<in> set cs \<or> cs = []"
    using H F by (auto simp: handler_def Let_def len_def threshold_def split: if_splits)
  show ?thesis
    using H F I E W T by simp
qed

theorem handler_flushes_iff_exceeds_witness:
  "threshold example_client = 2
   \<and> handler quota_extern example_client msg_a
       = ([], Inr (example_client\<lparr>batch := \<lparr>items = [msg_a], capacity = 2\<rparr>\<rparr>))
   \<and> handler quota_extern (example_client\<lparr>batch := \<lparr>items = [msg_a], capacity = 2\<rparr>\<rparr>) msg_c
       = ([], Inr (example_client\<lparr>batch := \<lparr>items = [msg_a, msg_c], capacity = 2\<rparr>\<rparr>))
   \<and> handler quota_extern (example_client\<lparr>batch := \<lparr>items = [msg_a, msg_c], capacity = 2\<rparr>\<rparr>) msg_a
       = ([CallWriteString ''a\<newline>'' False, CallAck msg_a, CallWriteString ''c\<newline>'' False, CallAck msg_c,
           CallWriteString ''a\<newline>'' False, CallAck msg_a, CallFlush],
          Inr (example_client\<lparr>writer := Some \<lparr>taken = [], stored = ''a\<newline>c\<newline>a\<newline>'', room = 2\<rparr>\<rparr>))"
proof -
  have T: "threshold example_client = 2"
    by (simp add: threshold_def example_client_def example_worker_def int_of_float32_def)
  have W0: "writer example_client = Some \<lparr>taken = [], stored = [], room = 8\<rparr>"
    by (simp add: example_client_def)
  have T0: "0 \<le> threshold example_client"
    using T by simp
  have W1: "writer (example_client\<lparr>batch := \<lparr>items = [msg_a], capacity = 2\<rparr>\<rparr>)
              = Some \<lparr>taken = [], stored = [], room = 8\<rparr>"
    by (simp add: example_client_def)
  have T1: "0 \<le> threshold (example_client\<lparr>batch := \<lparr>items = [msg_a], capacity = 2\<rparr>\<rparr>)"
    using T by simp
  have W2: "writer (example_client\<lparr>batch := \<lparr>items = [msg_a, msg_c], capacity = 2\<rparr>\<rparr>)
              = Some \<lparr>taken = [], stored = [], room = 8\<rparr>"
    by (simp add: example_client_def)
  have T2: "0 \<le> threshold (example_client\<lparr>batch := \<lparr>items = [msg_a, msg_c], capacity = 2\<rparr>\<rparr>)"
    using T by simp
  have H0: "handler quota_extern example_client msg_a
       = ([], Inr (example_client\<lparr>batch := \<lparr>items = [msg_a], capacity = 2\<rparr>\<rparr>))"
    by (simp add: handler_def len_def append_slice_def example_client_def example_worker_def
          int_of_float32_def)
  have H1: "handler quota_extern (example_client\<lparr>batch := \<lparr>items = [msg_a], capacity = 2\<rparr>\<rparr>) msg_c
       = ([], Inr (example_client\<lparr>batch := \<lparr>items = [msg_a, msg_c], capacity = 2\<rparr>\<rparr>))"
    by (simp add: handler_def len_def append_slice_def example_client_def example_worker_def
          int_of_float32_def)
  have H2: "handler quota_extern (example_client\<lparr>batch := \<lparr>items = [msg_a, msg_c], capacity = 2\<rparr>\<rparr>) msg_a
       = ([CallWriteString ''a\<newline>'' False, CallAck msg_a, CallWriteString ''c\<newline>'' False, CallAck msg_c,
           CallWriteString ''a\<newline>'' False, CallAck msg_a, CallFlush],
          Inr (example_client\<lparr>writer := Some \<lparr>taken = [], stored = ''a\<newline>c\<newline>a\<newline>'', room = 2\<rparr>\<rparr>))"
    by (simp add: handler_def Flush_def len_def append_slice_def example_client_def
          example_worker_def quota_extern_def msg_a_def msg_c_def newline_def make_slice_def
          int_of_float32_def)
  show ?thesis
    using handler_flushes_iff_exceeds [OF W0 T0, of quota_extern msg_a]
      handler_flushes_iff_exceeds [OF W1 T1, of quota_extern msg_c]
      handler_flushes_iff_exceeds [OF W2 T2, of quota_extern msg_a]
      T H0 H1 H2
    by simp
qed

text \<open>
  Over a whole session: from a batch of \<open>k\<close> messages, at most the threshold \<open>T\<close>, and
  \<open>n\<close> deliveries, the batch ends with \<open>(k + n) mod (T + 1)\<close> messages after
  \<open>(k + n) div (T + 1)\<close> flushes: \<open>T\<close> messages sit in the batch and the next one flushes.
\<close>

lemma Receive_loop_sizes:
  assumes "Receive_loop X g ms = (cs, Inr g')"
    and "0 \<le> threshold g"
    and "length (items (batch g)) \<le> nat (threshold g)"
  shows "length (items (batch g')) = (length (items (batch g)) + length ms) mod (nat (threshold g) + 1)
         \<and> count_list cs CallFlush = (length (items (batch g)) + length ms) div (nat (threshold g) + 1)"
  using assms
proof (induction ms arbitrary: g cs)
  case Nil
  then show ?case by simp
next
  case (Cons m ms)
  obtain c1 g1 where H: "handler X g m = (c1, Inr g1)"
    using Cons.prems(1) by (auto split: prod.splits sum.splits)
  obtain c2 where R: "Receive_loop X g1 ms = (c2, Inr g')" and C: "cs = c1 @ c2"
    using Cons.prems(1) H by (auto split: prod.splits sum.splits)
  have T: "threshold g1 = threshold g" using handler_threshold [OF H] .
  let ?k = "length (items (batch g))"
  let ?T = "nat (threshold g)"
  show ?case
  proof (cases "?k = ?T")
    case True
    then have F: "threshold g < int ?k + 1" using Cons.prems(2) by linarith
    have I: "items (batch g1) = []" using handler_items [OF H] F by simp
    have N: "count_list c1 CallFlush = 1" using handler_count [OF H] F by simp
    have IH: "length (items (batch g')) = (0 + length ms) mod (?T + 1)
         \<and> count_list c2 CallFlush = (0 + length ms) div (?T + 1)"
      using Cons.IH [OF R] T I Cons.prems(2) by simp
    have A: "Suc (?T + length ms) = Suc ?T + length ms" by simp
    have M: "Suc (?T + length ms) mod Suc ?T = length ms mod Suc ?T"
      unfolding A by (rule mod_add_self1)
    have D: "Suc (?T + length ms) div Suc ?T = Suc (length ms div Suc ?T)"
      unfolding A by (simp del: add_Suc)
    show ?thesis using IH C N True M D by simp
  next
    case False
    then have L: "?k < ?T" using Cons.prems(3) by simp
    then have F: "\<not> threshold g < int ?k + 1" by linarith
    have I: "items (batch g1) = items (batch g) @ [m]" using handler_items [OF H] F by simp
    have N: "count_list c1 CallFlush = 0" using handler_count [OF H] F by simp
    have IH: "length (items (batch g')) = (Suc ?k + length ms) mod (?T + 1)
         \<and> count_list c2 CallFlush = (Suc ?k + length ms) div (?T + 1)"
      using Cons.IH [OF R] T I L Cons.prems(2) by simp
    then show ?thesis using C N by simp
  qed
qed

lemma Receive_loop_returns:
  assumes "writer g = Some w" and "0 \<le> threshold g"
  shows "\<exists>cs g'. Receive_loop X g msgs = (cs, Inr g')"
  using assms
proof (induction msgs arbitrary: g w)
  case Nil
  then show ?case by simp
next
  case (Cons m msgs)
  obtain c1 g1 w1 where H: "handler X g m = (c1, Inr g1)" and W: "writer g1 = Some w1"
    and T: "threshold g1 = threshold g"
    using handler_returns [OF Cons.prems] by blast
  obtain c2 g2 where R: "Receive_loop X g1 msgs = (c2, Inr g2)"
    using Cons.IH [OF W] T Cons.prems(2) by auto
  show ?case using H R by simp
qed

lemma Receive_loop_flushes_every_T_plus_1:
  assumes "writer g = Some w" and "0 \<le> threshold g"
    and "length (items (batch g)) \<le> nat (threshold g)"
  shows "\<exists>cs g'. Receive_loop X g ms = (cs, Inr g')
           \<and> length (items (batch g')) = (length (items (batch g)) + length ms) mod (nat (threshold g) + 1)
           \<and> count_list cs CallFlush = (length (items (batch g)) + length ms) div (nat (threshold g) + 1)"
proof -
  obtain cs g' where R: "Receive_loop X g ms = (cs, Inr g')"
    using Receive_loop_returns [OF assms(1,2)] by blast
  show ?thesis
    using R Receive_loop_sizes [OF R assms(2,3)] by simp
qed


section \<open>Properties of NewGCPclient and Consume\<close>

lemma NewGCPclient_cases:
  "NewGCPclient X fs cf = Inr ((ptr, err), fs') \<Longrightarrow> (ptr = None) = (err \<noteq> None)"
  by (auto simp: NewGCPclient_def Let_def split: sum.splits option.splits prod.splits)

text \<open>
  Claim C9. Whenever \<^verbatim>\<open>NewGCPclient\<close> returns a non-nil error, the pointer it returns
  is nil.
\<close>

theorem NewGCPclient_error_nil_client:
  assumes "NewGCPclient X fs cf = Inr ((ptr, Some e), fs')"
  shows "ptr = None"
  using NewGCPclient_cases [OF assms] by simp

lemma read_missing: "ioutil_ReadFile example_fs ''missing.json'' = Inl ErrNotExist"
  by (simp add: ioutil_ReadFile_def example_fs_def)

theorem NewGCPclient_error_nil_client_witness:
  "NewGCPclient quota_extern example_fs ''missing.json'' = Inr ((None, Some err_read_config), example_fs)"
proof -
  have N: "NewGCPclient quota_extern example_fs ''missing.json'' = Inr ((None, Some err_read_config), example_fs)"
    by (simp add: NewGCPclient_def read_missing)
  show ?thesis
    using N NewGCPclient_error_nil_client [OF N] by simp
qed

lemma create_example:
  "CreateMessageLogFiles example_fs ''/var/log'' ''events'' = (created_fs, None)"
  by (simp add: CreateMessageLogFiles_def os_MkdirAll_def os_Stat_def os_Create_def
        message_log_file_def example_fs_def created_fs_def)

lemma NewGCPclient_default:
  "NewGCPclient quota_extern example_fs ''default.json'' = Inr ((Some default_client, None), created_fs)"
proof -
  have R: "ioutil_ReadFile example_fs ''default.json'' = Inr ''config without batchsize''"
    by (simp add: ioutil_ReadFile_def example_fs_def)
  have U: "json_Unmarshal quota_extern ''config without batchsize'' = Some config_default"
    by (simp add: quota_extern_def example_unmarshal_def)
  show ?thesis
    by (simp add: NewGCPclient_def R U config_default_def unmarshalled_def
          default_Worker_log_path_def create_example make_slice_def int_of_float32_def
          default_Batchsize_def default_Maxwaittime_def default_client_def nil_slice_def)
qed

text \<open>
  Claim C6, on a configuration file that sets no batch size. The batch is made with
  capacity \<^verbatim>\<open>int(Batchsize)\<close> while \<^verbatim>\<open>Batchsize\<close> is still zero, and the default of 3
  is set afterwards: the client comes back with an empty batch of capacity 0 and a
  threshold of 3.
\<close>

theorem NewGCPclient_default_capacity:
  "NewGCPclient quota_extern example_fs ''default.json'' = Inr ((Some default_client, None), created_fs)
   \<and> items (batch default_client) = []
   \<and> capacity (batch default_client) = 0
   \<and> threshold default_client = 3"
  using NewGCPclient_default by (simp add: default_client_def threshold_def int_of_float32_def)

lemma default_Worker_log_path_fields [simp]:
  "Message_log_path (Worker (default_Worker_log_path g)) = Message_log_path (Worker g)"
  "Subscription (default_Worker_log_path g) = Subscription g"
  "Batchsize (Worker (default_Worker_log_path g)) = Batchsize (Worker g)"
  "batch (default_Worker_log_path g) = batch g"
  "writer (default_Worker_log_path g) = writer g"
  by (simp_all add: default_Worker_log_path_def)

lemma unmarshalled_fields [simp]:
  "Message_log_path (Worker (unmarshalled cfg)) = Message_log_path (json_workerinfo cfg)"
  "Subscription (unmarshalled cfg) = json_subscription cfg"
  "Batchsize (Worker (unmarshalled cfg)) = Batchsize (json_workerinfo cfg)"
  "writer (unmarshalled cfg) = None"
  by (simp_all add: unmarshalled_def)

lemma defaults_fields [simp]:
  "Message_log_path (Worker (default_Maxwaittime g)) = Message_log_path (Worker g)"
  "Subscription (default_Maxwaittime g) = Subscription g"
  "Batchsize (Worker (default_Maxwaittime g)) = Batchsize (Worker g)"
  "batch (default_Maxwaittime g) = batch g"
  "writer (default_Maxwaittime g) = writer g"
  "Message_log_path (Worker (default_Batchsize g)) = Message_log_path (Worker g)"
  "Subscription (default_Batchsize g) = Subscription g"
  "batch (default_Batchsize g) = batch g"
  "writer (default_Batchsize g) = writer g"
  by (simp_all add: default_Maxwaittime_def default_Batchsize_def)

lemma NewGCPclient_success:
  assumes "NewGCPclient X fs cf = Inr ((Some g, None), fs')"
  shows "\<exists>content cfg. ioutil_ReadFile fs cf = Inr content \<and> json_Unmarshal X content = Some cfg
           \<and> CreateMessageLogFiles fs (Message_log_path (json_workerinfo cfg)) (json_subscription cfg) = (fs', None)
           \<and> 0 \<le> int_of_float32 (Batchsize (json_workerinfo cfg))
           \<and> g = default_Maxwaittime (default_Batchsize (default_Worker_log_path (unmarshalled cfg)
                    \<lparr>batch := \<lparr>items = [], capacity = nat (int_of_float32 (Batchsize (json_workerinfo cfg)))\<rparr>\<rparr>))"
  using assms
  by (auto simp: NewGCPclient_def Let_def make_slice_def
           split: sum.splits option.splits prod.splits if_splits)

lemma int_of_float32_3 [simp]: "int_of_float32 3 = 3"
  by (simp add: int_of_float32_def)

lemma int_of_float32_0 [simp]: "int_of_float32 0 = 0"
  by (simp add: int_of_float32_def)

lemma NewGCPclient_client:
  assumes "NewGCPclient X fs cf = Inr ((Some g, None), fs')"
  shows "writer g = None \<and> items (batch g) = [] \<and> 0 \<le> threshold g
         \<and> Batchsize (Worker g) \<noteq> 0 \<and> Maxwaittime (Worker g) \<noteq> 0"
proof -
  obtain cfg where T: "0 \<le> int_of_float32 (Batchsize (json_workerinfo cfg))"
    and G: "g = default_Maxwaittime (default_Batchsize (default_Worker_log_path (unmarshalled cfg)
                    \<lparr>batch := \<lparr>items = [], capacity = nat (int_of_float32 (Batchsize (json_workerinfo cfg)))\<rparr>\<rparr>))"
    using NewGCPclient_success [OF assms] by blast
  show ?thesis
    using T unfolding G threshold_def
    by (simp add: default_Maxwaittime_def default_Batchsize_def)
qed

lemma NewGCPclient_capacity:
  assumes "NewGCPclient X fs cf = Inr ((Some g, None), fs')"
  shows "int (capacity (batch g)) = threshold g
         \<or> capacity (batch g) = 0 \<and> Batchsize (Worker g) = 3"
proof -
  obtain cfg where T: "0 \<le> int_of_float32 (Batchsize (json_workerinfo cfg))"
    and G: "g = default_Maxwaittime (default_Batchsize (default_Worker_log_path (unmarshalled cfg)
                    \<lparr>batch := \<lparr>items = [], capacity = nat (int_of_float32 (Batchsize (json_workerinfo cfg)))\<rparr>\<rparr>))"
    using NewGCPclient_success [OF assms] by blast
  show ?thesis
    using T unfolding G threshold_def
    by (auto simp: default_Maxwaittime_def default_Batchsize_def)
qed

lemma message_log_file_neq [simp]: "message_log_file logpath filename \<noteq> logpath"
  by (simp add: message_log_file_def)




text \<open>
  Claim C5. Six failures: the configuration file cannot be read, it is not valid JSON, the
  message log file cannot be created, the pub/sub client cannot be created, the log file
  cannot be opened, \<^verbatim>\<open>Receive\<close> returns an error. Each one comes back as its own error
  value, the six values are pairwise different, and when the client cannot be created or the
  file cannot be opened \<^verbatim>\<open>Consume\<close> returns without a single call: \<^verbatim>\<open>Receive\<close> is not
  entered and the client is as it was.
\<close>

theorem errors_are_distinct_and_fatal_ones_precede_Receive:
  assumes "ioutil_ReadFile fs1 cf1 = Inl e1"
    and "ioutil_ReadFile fs2 cf2 = Inr content2"
    and "json_Unmarshal X content2 = None"
    and "ioutil_ReadFile fs3 cf3 = Inr content3"
    and "json_Unmarshal X content3 = Some cfg3"
    and "CreateMessageLogFiles fs3 (Message_log_path (json_workerinfo cfg3)) (json_subscription cfg3)
           = (fs3', Some e3)"
    and "NewClient_fails P4 (Project g4) (Keyfile g4)"
    and "\<not> NewClient_fails P5 (Project g5) (Keyfile g5)"
    and "os_OpenFile fs5 (message_log_file (Message_log_path (Worker g5)) (Subscription g5))
           [O_WRONLY, O_APPEND] = (fs5', Inl e5)"
    and "\<not> NewClient_fails P6 (Project g6) (Keyfile g6)"
    and "os_OpenFile fs6 (message_log_file (Message_log_path (Worker g6)) (Subscription g6))
           [O_WRONLY, O_APPEND] = (fs6', Inr file6)"
    and "Receive_loop X (g6\<lparr>writer := Some (bufio_NewWriter X file6)\<rparr>) (delivered P6) = (cs6, Inr g6')"
    and "Receive_fails P6"
  shows "NewGCPclient X fs1 cf1 = Inr ((None, Some err_read_config), fs1)
       \<and> NewGCPclient X fs2 cf2 = Inr ((None, Some err_unmarshal_config), fs2)
       \<and> NewGCPclient X fs3 cf3 = Inr ((None, Some err_create_log_files), fs3')
       \<and> Consume X P4 fs4 g4 = ([], Inr (g4, Some err_pubsub_client))
       \<and> Consume X P5 fs5 g5 = ([], Inr (g5, Some err_open_log_file))
       \<and> snd (Consume X P6 fs6 g6) = Inr (g6', Some err_receive)
       \<and> distinct [err_read_config, err_unmarshal_config, err_create_log_files,
                    err_pubsub_client, err_open_log_file, err_receive]"
proof -
  have 1: "NewGCPclient X fs1 cf1 = Inr ((None, Some err_read_config), fs1)"
    using assms(1) by (simp add: NewGCPclient_def)
  have 2: "NewGCPclient X fs2 cf2 = Inr ((None, Some err_unmarshal_config), fs2)"
    using assms(2,3) by (simp add: NewGCPclient_def)
  have 3: "NewGCPclient X fs3 cf3 = Inr ((None, Some err_create_log_files), fs3')"
    using assms(4,5,6) by (simp add: NewGCPclient_def)
  have 4: "Consume X P4 fs4 g4 = ([], Inr (g4, Some err_pubsub_client))"
    using assms(7) by (simp add: Consume_def)
  have 5: "Consume X P5 fs5 g5 = ([], Inr (g5, Some err_open_log_file))"
    using assms(8,9) by (simp add: Consume_def)
  have 6: "snd (Consume X P6 fs6 g6) = Inr (g6', Some err_receive)"
    using assms(10,11,12,13) by (simp add: Consume_def)
  have 7: "distinct [err_read_config, err_unmarshal_config, err_create_log_files,
                    err_pubsub_client, err_open_log_file, err_receive]"
    by (simp add: err_read_config_def err_unmarshal_config_def err_create_log_files_def
          err_pubsub_client_def err_open_log_file_def err_receive_def)
  show ?thesis
    using 1 2 3 4 5 6 7 by blast
qed


theorem errors_are_distinct_and_fatal_ones_precede_Receive_witness:
  "NewGCPclient quota_extern example_fs ''missing.json'' = Inr ((None, Some err_read_config), example_fs)
   \<and> NewGCPclient quota_extern example_fs ''broken.json'' = Inr ((None, Some err_unmarshal_config), example_fs)
   \<and> NewGCPclient quota_extern example_fs ''readonly.json'' = Inr ((None, Some err_create_log_files), example_fs)
   \<and> Consume quota_extern no_credentials example_fs example_client
        = ([], Inr (example_client, Some err_pubsub_client))
   \<and> Consume quota_extern quiet_source example_fs example_client
        = ([], Inr (example_client, Some err_open_log_file))
   \<and> snd (Consume quota_extern failing_source created_fs example_client)
        = Inr (example_client\<lparr>batch := \<lparr>items = [msg_a], capacity = 2\<rparr>\<rparr>, Some err_receive)"
proof -
  have h1: "ioutil_ReadFile example_fs ''missing.json'' = Inl ErrNotExist"
    by (simp add: ioutil_ReadFile_def example_fs_def)
  have h2: "ioutil_ReadFile example_fs ''broken.json'' = Inr ''not json''"
    by (simp add: ioutil_ReadFile_def example_fs_def)
  have h3: "json_Unmarshal quota_extern ''not json'' = None"
    by (simp add: quota_extern_def example_unmarshal_def)
  have h4: "ioutil_ReadFile example_fs ''readonly.json'' = Inr ''config with a read-only log path''"
    by (simp add: ioutil_ReadFile_def example_fs_def)
  have h5: "json_Unmarshal quota_extern ''config with a read-only log path'' = Some config_readonly"
    by (simp add: quota_extern_def example_unmarshal_def)
  have h6: "CreateMessageLogFiles example_fs (Message_log_path (json_workerinfo config_readonly))
              (json_subscription config_readonly)
            = (example_fs, Some ''Error: Unable to create target log files path'')"
    by (simp add: CreateMessageLogFiles_def os_MkdirAll_def config_readonly_def example_fs_def)
  have h7: "NewClient_fails no_credentials (Project example_client) (Keyfile example_client)"
    by (simp add: no_credentials_def)
  have h8: "\<not> NewClient_fails quiet_source (Project example_client) (Keyfile example_client)"
    by (simp add: quiet_source_def)
  have h9: "os_OpenFile example_fs
              (message_log_file (Message_log_path (Worker example_client)) (Subscription example_client))
              [O_WRONLY, O_APPEND] = (example_fs, Inl ErrNotExist)"
    by (simp add: os_OpenFile_def message_log_file_def example_client_def example_worker_def
          example_fs_def)
  have h10: "\<not> NewClient_fails failing_source (Project example_client) (Keyfile example_client)"
    by (simp add: failing_source_def)
  have h11: "os_OpenFile created_fs
              (message_log_file (Message_log_path (Worker example_client)) (Subscription example_client))
              [O_WRONLY, O_APPEND] = (created_fs, Inr ''/var/log/events.log'')"
    by (simp add: os_OpenFile_def message_log_file_def example_client_def example_worker_def
          created_fs_def example_fs_def)
  have h12: "Receive_loop quota_extern
               (example_client\<lparr>writer := Some (bufio_NewWriter quota_extern ''/var/log/events.log'')\<rparr>)
               (delivered failing_source)
             = ([], Inr (example_client\<lparr>batch := \<lparr>items = [msg_a], capacity = 2\<rparr>\<rparr>))"
    by (simp add: failing_source_def handler_def len_def append_slice_def quota_extern_def
          example_client_def example_worker_def int_of_float32_def)
  have h13: "Receive_fails failing_source"
    by (simp add: failing_source_def)
  show ?thesis
    using errors_are_distinct_and_fatal_ones_precede_Receive
      [OF h1 h2 h3 h4 h5 h6 h7 h8 h9 h10 h11 h12 h13, of example_fs]
    by simp
qed




section \<open>A client made by NewGCPclient does not panic\<close>

text \<open>
  The theorems about \<^verbatim>\<open>Flush\<close> and the handler are about calls that return. They do
  return where the writer is set and the threshold is not negative, which is the case of
  every client that \<^verbatim>\<open>NewGCPclient\<close> has made, once \<^verbatim>\<open>Consume\<close> has set its writer.
\<close>

lemma NewGCPclient_then_Consume_returns:
  assumes "NewGCPclient X fs cf = Inr ((Some g, None), fs')"
  shows "\<exists>cs g' err. Consume X P fs'' g = (cs, Inr (g', err))"
proof -
  have T: "0 \<le> threshold g" using NewGCPclient_client [OF assms] by simp
  show ?thesis
  proof (cases "NewClient_fails P (Project g) (Keyfile g)")
    case True
    then show ?thesis by (simp add: Consume_def)
  next
    case False
    show ?thesis
    proof (cases "os_OpenFile fs'' (message_log_file (Message_log_path (Worker g)) (Subscription g)) [O_WRONLY, O_APPEND]")
      case (Pair fs1 r)
      show ?thesis
      proof (cases r)
        case (Inl e)
        then show ?thesis using False Pair by (simp add: Consume_def)
      next
        case (Inr path)
        obtain cs g' where "Receive_loop X (g\<lparr>writer := Some (bufio_NewWriter X path)\<rparr>) (delivered P) = (cs, Inr g')"
          using Receive_loop_returns [of "g\<lparr>writer := Some (bufio_NewWriter X path)\<rparr>" _ X "delivered P"] T
          by auto
        then show ?thesis using False Pair Inr by (simp add: Consume_def Let_def)
      qed
    qed
  qed
qed

section \<open>Properties of the deadline\<close>

lemma default_timeout:
  "Maxwaittime (Worker g) = 0 \<Longrightarrow>
   Maxwaittime (Worker (default_Maxwaittime g)) * Minute = 600000000000"
  by (simp add: default_Maxwaittime_def Minute_def)

lemma timeout_overflow:
  "sint ((153722867 :: Duration) * Minute) = 9223372020000000000
   \<and> sint ((153722868 :: Duration) * Minute) < 0"
  by (simp add: Minute_def)

lemma sint_minutes:
  assumes "- 153722867 \<le> sint (m :: Duration)" and "sint m \<le> 153722867"
  shows "sint (m * Minute) = sint m * 60000000000"
proof -
  have M: "sint Minute = 60000000000" by (simp add: Minute_def)
  have L: "- (2 ^ 63) \<le> sint m * 60000000000" using assms(1) by simp
  have U: "sint m * 60000000000 < 2 ^ 63" using assms(2) by simp
  have "sint (m * Minute) = signed_take_bit (LENGTH(64) - 1) (sint m * sint Minute)"
    by (rule sint_word_ariths)
  also have "\<dots> = sint m * 60000000000"
    using L U by (simp add: M signed_take_bit_int_eq_self)
  finally show ?thesis .
qed

lemma Consume_first_call:
  "fst (Consume X P fs g) = [] \<or> hd (fst (Consume X P fs g)) = CallReceive (Maxwaittime (Worker g) * Minute)"
  by (auto simp: Consume_def Let_def split: prod.splits sum.splits)

lemma Receive_until_filter:
  "Receive_until d (filter (\<lambda>(t, m). t < d) arrivals) = Receive_until d arrivals"
  by (simp add: Receive_until_def)

lemma NewGCPclient_Maxwaittime:
  assumes "ioutil_ReadFile fs cf = Inr content" and "json_Unmarshal X content = Some cfg"
    and "NewGCPclient X fs cf = Inr ((Some g, None), fs')"
  shows "Maxwaittime (Worker g) =
           (if Maxwaittime (json_workerinfo cfg) = 0 then 10 else Maxwaittime (json_workerinfo cfg))"
  using assms
  by (auto simp: NewGCPclient_def Let_def default_Maxwaittime_def default_Batchsize_def
        default_Worker_log_path_def unmarshalled_def
        split: sum.splits option.splits prod.splits if_splits)

text \<open>
  Claim C8 as it is written fails for a maximum wait time of 153722868 minutes: the product
  \<^verbatim>\<open>Maxwaittime*time.Minute\<close> leaves the range of \<^verbatim>\<open>int64\<close> and wraps to a negative
  number, so the deadline of a session that starts at time 0 lies before its start, and a
  message that arrives one nanosecond into the session is not handed to the handler.
\<close>

theorem long_wait_deadline_in_the_past:
  "Maxwaittime (Worker long_wait_client) = 153722868
   \<and> session_deadline 0 long_wait_client < 0
   \<and> session_deadline 0 long_wait_client \<noteq> 0 + 153722868 * 60000000000
   \<and> Consume quota_extern (timed_source 0 long_wait_client [(1, msg_a)]) created_fs long_wait_client
       = ([CallReceive (153722868 * Minute), CallClose ''/var/log/events.log''],
          Inr (long_wait_client, None))"
  by (simp add: long_wait_client_def example_client_def example_worker_def session_deadline_def
        Minute_def Consume_def timed_source_def Receive_until_def os_OpenFile_def
        message_log_file_def created_fs_def example_fs_def quota_extern_def)

text \<open>
  Claim C8, amended. For a client made by \<^verbatim>\<open>NewGCPclient\<close>, the maximum wait time is
  the configured one, or 10 when that is unset or zero. When its minutes fit the 64-bit
  count of nanoseconds (at most 153722867 minutes either way), the deadline of the session
  is its start plus that many minutes, and that product is the timeout with which
  \<^verbatim>\<open>Consume\<close> enters \<^verbatim>\<open>Receive\<close>, its first call if it makes any. The handler is
  invoked for the messages that arrive before the deadline, and what arrives at the deadline
  or later changes nothing in what \<^verbatim>\<open>Consume\<close> does.
\<close>

theorem session_deadline_counts_minutes:
  assumes "ioutil_ReadFile fs cf = Inr content" and "json_Unmarshal X content = Some cfg"
    and "NewGCPclient X fs cf = Inr ((Some g, None), fs')"
    and "- 153722867 \<le> sint (Maxwaittime (Worker g))"
    and "sint (Maxwaittime (Worker g)) \<le> 153722867"
  shows "Maxwaittime (Worker g) =
           (if Maxwaittime (json_workerinfo cfg) = 0 then 10 else Maxwaittime (json_workerinfo cfg))
       \<and> session_deadline now g = now + sint (Maxwaittime (Worker g)) * 60000000000
       \<and> (fst (Consume X P fs1 g) = []
            \<or> hd (fst (Consume X P fs1 g)) = CallReceive (Maxwaittime (Worker g) * Minute))
       \<and> delivered (timed_source now g arrivals) =
            map snd (filter (\<lambda>(t, m). t < now + sint (Maxwaittime (Worker g)) * 60000000000) arrivals)
       \<and> Consume X (timed_source now g arrivals) fs1 g =
            Consume X (timed_source now g
              (filter (\<lambda>(t, m). t < now + sint (Maxwaittime (Worker g)) * 60000000000) arrivals)) fs1 g"
proof -
  have 1: "Maxwaittime (Worker g) =
           (if Maxwaittime (json_workerinfo cfg) = 0 then 10 else Maxwaittime (json_workerinfo cfg))"
    using NewGCPclient_Maxwaittime [OF assms(1,2,3)] .
  have 2: "session_deadline now g = now + sint (Maxwaittime (Worker g)) * 60000000000"
    using sint_minutes [OF assms(4,5)] by (simp add: session_deadline_def)
  have 3: "fst (Consume X P fs1 g) = []
            \<or> hd (fst (Consume X P fs1 g)) = CallReceive (Maxwaittime (Worker g) * Minute)"
    by (rule Consume_first_call)
  have 4: "delivered (timed_source now g arrivals) =
            map snd (filter (\<lambda>(t, m). t < now + sint (Maxwaittime (Worker g)) * 60000000000) arrivals)"
    using 2 by (simp add: timed_source_def Receive_until_def)
  have "timed_source now g (filter (\<lambda>(t, m). t < session_deadline now g) arrivals)
          = timed_source now g arrivals"
    by (simp add: timed_source_def Receive_until_filter)
  then have 5: "Consume X (timed_source now g arrivals) fs1 g =
            Consume X (timed_source now g
              (filter (\<lambda>(t, m). t < now + sint (Maxwaittime (Worker g)) * 60000000000) arrivals)) fs1 g"
    using 2 by simp
  show ?thesis using 1 2 3 4 5 by blast
qed

theorem session_deadline_counts_minutes_witness:
  "Maxwaittime (json_workerinfo config_default) = 0
   \<and> Maxwaittime (Worker default_client) = 10
   \<and> session_deadline 0 default_client = 600000000000
   \<and> delivered (timed_source 0 default_client [(5, msg_a), (600000000000, msg_c)]) = [msg_a]
   \<and> Consume quota_extern (timed_source 0 default_client [(5, msg_a), (600000000000, msg_c)])
         created_fs default_client
       = ([CallReceive 600000000000, CallClose ''/var/log/events.log''],
          Inr (default_client\<lparr>writer := Some \<lparr>taken = [], stored = [], room = 8\<rparr>,
                               batch := \<lparr>items = [msg_a], capacity = 1\<rparr>\<rparr>, None))"
proof -
  have h1: "ioutil_ReadFile example_fs ''default.json'' = Inr ''config without batchsize''"
    by (simp add: ioutil_ReadFile_def example_fs_def)
  have h2: "json_Unmarshal quota_extern ''config without batchsize'' = Some config_default"
    by (simp add: quota_extern_def example_unmarshal_def)
  have h3: "NewGCPclient quota_extern example_fs ''default.json''
              = Inr ((Some default_client, None), created_fs)"
    by (rule NewGCPclient_default)
  have M: "Maxwaittime (Worker default_client) = 10"
    by (simp add: default_client_def)
  have h4: "- 153722867 \<le> sint (Maxwaittime (Worker default_client))"
    unfolding M by simp
  have h5: "sint (Maxwaittime (Worker default_client)) \<le> 153722867"
    unfolding M by simp
  have D: "session_deadline 0 default_client = 600000000000"
    by (simp add: session_deadline_def M Minute_def)
  have C: "Consume quota_extern (timed_source 0 default_client [(5, msg_a)]) created_fs default_client
       = ([CallReceive 600000000000, CallClose ''/var/log/events.log''],
          Inr (default_client\<lparr>writer := Some \<lparr>taken = [], stored = [], room = 8\<rparr>,
                               batch := \<lparr>items = [msg_a], capacity = 1\<rparr>\<rparr>, None))"
    by (simp add: Consume_def timed_source_def Receive_until_def session_deadline_def os_OpenFile_def
          message_log_file_def created_fs_def example_fs_def quota_extern_def handler_def
          len_def append_slice_def int_of_float32_def Minute_def default_client_def)
  show ?thesis
    using session_deadline_counts_minutes [OF h1 h2 h3 h4 h5, where now = 0
        and P = "timed_source 0 default_client [(5, msg_a)]" and ?fs1.0 = created_fs
        and arrivals = "[(5, msg_a), (600000000000, msg_c)]"]
      M C
    by (simp add: config_default_def)
qed

end
